theory Spec2Isabelle
  imports Complex_Main "HOL-Library.Log_Nat"
begin

section \<open>Data model\<close>

text \<open>
  Go's \<open>float64\<close> is IEEE 754 binary64. A finite value is modelled by the real number it
  denotes; infinities, NaN and the sign of zero have no counterpart.

  In the tuner (\<open>calculateAverage\<close>, \<open>adjustCoefficient\<close>) a rounded value decides which
  branch is taken, so every operation there is the binary64 one: the exact result rounded
  by \<open>round64\<close> below. The dose formulas (\<open>CalculateMealInsulin\<close>,
  \<open>CalculateCorrectionInsulin\<close>, \<open>CalculateTotalInsulin\<close> and the dose part of the request
  handler) are written in exact arithmetic: Go evaluates the same expressions in binary64,
  and what it returns differs from the exact value by rounding only.
\<close>

type_synonym float64 = real

text \<open>\<open>models.InsulinPeriod\<close>, \<open>models.SensitivityPeriod\<close>, \<open>models.CarbRatioPeriod\<close>.
  The three structs share the field names \<open>StartTime\<close> and \<open>Hours\<close>; the fields of the
  second and third record carry a prefix.\<close>

record InsulinPeriod =
  StartTime :: string
  Coefficient :: float64
  Hours :: float64

record SensitivityPeriod =
  S_StartTime :: string
  Sensitivity :: float64
  S_Hours :: float64

record CarbRatioPeriod =
  C_StartTime :: string
  Ratio :: float64
  C_Hours :: float64

text \<open>\<open>models.Settings\<close> (the identifiers and the update timestamp play no part in any
  computation and are left out).\<close>

record Settings =
  TargetMin :: float64
  TargetMax :: float64
  IOBDuration :: float64
  InsulinPeriods :: "InsulinPeriod list"
  SensitivityPeriods :: "SensitivityPeriod list"
  CarbRatioPeriods :: "CarbRatioPeriod list"

text \<open>\<open>models.BloodSugarReading\<close>. The code reads a timestamp only through
  \<open>Timestamp.Hour()\<close>, so the timestamp is represented by its hour of the day.\<close>

record BloodSugarReading =
  Value :: float64
  TimestampHour :: int

text \<open>\<open>models.BaseInsulinCoefficients\<close>, the legacy four-quadrant format.\<close>

record BaseInsulinCoefficients =
  Morning :: float64
  Afternoon :: float64
  Evening :: float64
  Night :: float64

section \<open>binary64 arithmetic\<close>

text \<open>Rounding of a real to the nearest integer, a tie going to the even one.\<close>

definition round_even :: "real \<Rightarrow> int" where
  "round_even z =
     (let f = \<lfloor>z\<rfloor>; r = z - of_int f
      in if r < 1 / 2 then f else if r > 1 / 2 then f + 1
         else if even f then f else f + 1)"

text \<open>
  Rounding of a real to the nearest binary64 value, ties to the even significand, with
  gradual underflow. \<open>y\<close> is the magnitude in units of 2 to the power -1074, the least
  positive binary64 value; the significand keeps 53 bits, so the \<open>s\<close> lowest bits of \<open>y\<close>
  are rounded away. A magnitude of 2 to the power 1024 or more overflows to an infinity in
  Go and stays finite here.
\<close>

definition round64 :: "real \<Rightarrow> real" where
  "round64 x =
     (let y = \<bar>x\<bar> * 2 ^ 1074;
          s = nat (bitlen \<lfloor>y\<rfloor> - 53)
      in sgn x * (of_int (round_even (y / 2 ^ s)) * 2 ^ s / 2 ^ 1074))"

definition f64_add :: "float64 \<Rightarrow> float64 \<Rightarrow> float64" where
  "f64_add x y = round64 (x + y)"

definition f64_sub :: "float64 \<Rightarrow> float64 \<Rightarrow> float64" where
  "f64_sub x y = round64 (x - y)"

definition f64_mul :: "float64 \<Rightarrow> float64 \<Rightarrow> float64" where
  "f64_mul x y = round64 (x * y)"

text \<open>Division by a non-zero divisor. Go divides by zero into an infinity or NaN; every
  use below tests the divisor first.\<close>

definition f64_div :: "float64 \<Rightarrow> float64 \<Rightarrow> float64" where
  "f64_div x y = round64 (x / y)"


section \<open>The insulin calculator (package insulin)\<close>

definition CalculateMealInsulin :: "float64 \<Rightarrow> float64 \<Rightarrow> float64 \<Rightarrow> float64" where
  "CalculateMealInsulin carbGrams carbRatio timeCoefficient =
     (let baseInsulin = carbGrams / carbRatio in baseInsulin * timeCoefficient)"

definition CalculateCorrectionInsulin :: "float64 \<Rightarrow> float64 \<Rightarrow> float64 \<Rightarrow> float64" where
  "CalculateCorrectionInsulin currentBG targetBG sensitivityFactor =
     (let bgDifference = currentBG - targetBG in bgDifference / sensitivityFactor)"

definition CalculateTotalInsulin :: "float64 \<Rightarrow> float64 \<Rightarrow> float64 \<Rightarrow> float64" where
  "CalculateTotalInsulin mealInsulin correctionInsulin insulinOnBoard =
     (let totalDose = mealInsulin + correctionInsulin - insulinOnBoard in max 0 totalDose)"

definition CalculateSensitivityFactor :: "float64 \<Rightarrow> float64" where
  "CalculateSensitivityFactor totalDailyInsulin = 100 / totalDailyInsulin / 18"

text \<open>\<open>calculateAverage\<close>: the summing loop is a left fold from \<open>0.0\<close>, each addition
  rounded; the sum is divided by \<open>float64(len(values))\<close>, which is not zero there.\<close>

definition calculateAverage :: "float64 list \<Rightarrow> float64" where
  "calculateAverage values =
     (if length values = 0 then 0
      else f64_div (foldl (\<lambda>sum v. f64_add sum v) 0 values) (real (length values)))"

text \<open>
  \<open>adjustCoefficient\<close>. The constants \<open>0.8\<close> and \<open>1.2\<close> are the binary64 values nearest
  to them. When \<open>avgBG\<close> is zero, \<open>targetBG / avgBG\<close> is an infinity with the sign of
  \<open>targetBG\<close> (which is not zero past the first test), and
  \<open>math.Max(0.8, math.Min(1.2, \<plusminus>Inf))\<close> is \<open>1.2\<close> or \<open>0.8\<close>.
\<close>

definition adjustCoefficient :: "float64 \<Rightarrow> float64 \<Rightarrow> float64 \<Rightarrow> float64" where
  "adjustCoefficient avgBG targetBG currentCoefficient =
     (if \<bar>f64_sub avgBG targetBG\<bar> < 1.0 then currentCoefficient
      else let limitedAdjustment =
                 (if avgBG = 0 then (if 0 < targetBG then round64 1.2 else round64 0.8)
                  else let adjustmentFactor = f64_div targetBG avgBG
                       in max (round64 0.8) (min (round64 1.2) adjustmentFactor))
           in f64_mul currentCoefficient limitedAdjustment)"

text \<open>The four slices the grouping loop of \<open>AdjustInsulinCoefficients\<close> appends to.\<close>

record grouped =
  morningReadings :: "float64 list"
  afternoonReadings :: "float64 list"
  eveningReadings :: "float64 list"
  nightReadings :: "float64 list"

definition group_step :: "grouped \<Rightarrow> BloodSugarReading \<Rightarrow> grouped" where
  "group_step g reading =
     (let hour = TimestampHour reading in
      if hour \<ge> 6 \<and> hour < 12 then
        g\<lparr>morningReadings := morningReadings g @ [Value reading]\<rparr>
      else if hour \<ge> 12 \<and> hour < 18 then
        g\<lparr>afternoonReadings := afternoonReadings g @ [Value reading]\<rparr>
      else if hour \<ge> 18 \<and> hour < 22 then
        g\<lparr>eveningReadings := eveningReadings g @ [Value reading]\<rparr>
      else
        g\<lparr>nightReadings := nightReadings g @ [Value reading]\<rparr>)"

definition group_readings :: "BloodSugarReading list \<Rightarrow> grouped" where
  "group_readings readings =
     foldl group_step
       \<lparr>morningReadings = [], afternoonReadings = [], eveningReadings = [],
        nightReadings = []\<rparr> readings"

text \<open>\<open>AdjustInsulinCoefficients\<close>: \<open>calculatedCoefficients\<close> starts as a copy of
  \<open>currentCoefficients\<close> and is updated field by field; every adjustment reads the old
  value from \<open>currentCoefficients\<close>. The result type has no error component, as in Go.\<close>

definition AdjustInsulinCoefficients ::
  "BloodSugarReading list \<Rightarrow> float64 \<Rightarrow> BaseInsulinCoefficients \<Rightarrow> BaseInsulinCoefficients"
where
  "AdjustInsulinCoefficients readings targetBG currentCoefficients =
     (if length readings < 5 then currentCoefficients
      else
        let g = group_readings readings;
            c0 = currentCoefficients;
            c1 = (if length (morningReadings g) \<ge> 3
                  then c0\<lparr>Morning := adjustCoefficient (calculateAverage (morningReadings g))
                                        targetBG (Morning currentCoefficients)\<rparr>
                  else c0);
            c2 = (if length (afternoonReadings g) \<ge> 3
                  then c1\<lparr>Afternoon := adjustCoefficient (calculateAverage (afternoonReadings g))
                                          targetBG (Afternoon currentCoefficients)\<rparr>
                  else c1);
            c3 = (if length (eveningReadings g) \<ge> 3
                  then c2\<lparr>Evening := adjustCoefficient (calculateAverage (eveningReadings g))
                                        targetBG (Evening currentCoefficients)\<rparr>
                  else c2);
            c4 = (if length (nightReadings g) \<ge> 3
                  then c3\<lparr>Night := adjustCoefficient (calculateAverage (nightReadings g))
                                      targetBG (Night currentCoefficients)\<rparr>
                  else c3)
        in c4)"

text \<open>\<open>GetTimeBasedCoefficient\<close>, on the hour of \<open>currentTime\<close>.\<close>

definition GetTimeBasedCoefficient :: "int \<Rightarrow> BaseInsulinCoefficients \<Rightarrow> float64" where
  "GetTimeBasedCoefficient hour coefficients =
     (if hour \<ge> 6 \<and> hour < 12 then Morning coefficients
      else if hour \<ge> 12 \<and> hour < 18 then Afternoon coefficients
      else if hour \<ge> 18 \<and> hour < 22 then Evening coefficients
      else Night coefficients)"

section \<open>Go library functions used on period start times\<close>

text \<open>
  Go's \<open>int\<close> is 64 bits wide on the platforms the server is built for. Integers are
  modelled by \<open>int\<close>, with the wrap-around of an addition written out.
\<close>

definition maxInt :: int where
  "maxInt = 2 ^ 63 - 1"

definition minInt :: int where
  "minInt = - (2 ^ 63)"

definition wrap64 :: "int \<Rightarrow> int" where
  "wrap64 n = (n + 2 ^ 63) mod 2 ^ 64 - 2 ^ 63"

text \<open>\<open>strings.Split(s, ":")[0]\<close>: the text before the first colon (all of \<open>s\<close> when
  there is none). \<open>Split\<close> with a non-empty separator always returns at least one
  element, so the index \<open>[0]\<close> cannot fail.\<close>

definition Split_first :: "string \<Rightarrow> string" where
  "Split_first s = takeWhile (\<lambda>ch. ch \<noteq> CHR '':'') s"

definition isDigit :: "char \<Rightarrow> bool" where
  "isDigit ch = (48 \<le> (of_char ch :: nat) \<and> (of_char ch :: nat) \<le> 57)"

definition digitVal :: "char \<Rightarrow> int" where
  "digitVal ch = int (of_char ch) - 48"

text \<open>
  \<open>strconv.Atoi\<close> is \<open>strconv.ParseInt(s, 10, 0)\<close>, which reads the sign and hands the rest
  to \<open>ParseUint\<close>. \<open>ParseUint\<close> scans the bytes once: a byte that is not a decimal digit
  ends the scan with a syntax error and the value 0; a digit that takes the number past
  64 bits ends it with a range error and the greatest value. Whichever comes first in the
  text decides. \<open>ParseInt\<close> then clamps to the range of \<open>int\<close>.
\<close>

datatype num_error = ErrSyntax | ErrRange

definition maxUint64 :: int where
  "maxUint64 = 2 ^ 64 - 1"

fun ParseUint_loop :: "int \<Rightarrow> string \<Rightarrow> int \<times> num_error option" where
  "ParseUint_loop n [] = (n, None)"
| "ParseUint_loop n (c # cs) =
     (if \<not> isDigit c then (0, Some ErrSyntax)
      else if n \<ge> maxUint64 div 10 + 1 then (maxUint64, Some ErrRange)
      else let n1 = n * 10 + digitVal c
           in if n1 > maxUint64 then (maxUint64, Some ErrRange)
              else ParseUint_loop n1 cs)"

definition ParseUint :: "string \<Rightarrow> int \<times> num_error option" where
  "ParseUint s = (if s = [] then (0, Some ErrSyntax) else ParseUint_loop 0 s)"

definition ParseInt :: "string \<Rightarrow> int \<times> num_error option" where
  "ParseInt s =
     (if s = [] then (0, Some ErrSyntax)
      else
        let neg = (hd s = CHR ''-'');
            digits = (if hd s = CHR ''+'' \<or> hd s = CHR ''-'' then tl s else s);
            (un, err) = ParseUint digits
        in if err = Some ErrSyntax then (0, err)
           else if \<not> neg \<and> un \<ge> 2 ^ 63 then (maxInt, Some ErrRange)
           else if neg \<and> un > 2 ^ 63 then (minInt, Some ErrRange)
           else (if neg then - un else un, None))"

definition Atoi :: "string \<Rightarrow> int \<times> num_error option" where
  "Atoi s = ParseInt s"

text \<open>The conversion \<open>int(x)\<close> of a \<open>float64\<close>: the fraction is discarded (truncation
  towards zero). For a value that does not fit \<open>int\<close> Go leaves the result to the
  implementation; the model takes what amd64 produces, the least \<open>int\<close>.\<close>

definition go_int :: "float64 \<Rightarrow> int" where
  "go_int x =
     (let t = (if x \<ge> 0 then \<lfloor>x\<rfloor> else \<lceil>x\<rceil>)
      in if minInt \<le> t \<and> t \<le> maxInt then t else minInt)"

text \<open>The start hour of a period as both conversions and the request handler compute it:
  \<open>startHour, _ := strconv.Atoi(strings.Split(period.StartTime, ":")[0])\<close>, the parse
  error discarded.\<close>

definition startHourOf :: "string \<Rightarrow> int" where
  "startHourOf startTime = fst (Atoi (Split_first startTime))"

section \<open>Conversions between the legacy format and period lists (package models)\<close>

definition ConvertToInsulinPeriods :: "BaseInsulinCoefficients \<Rightarrow> InsulinPeriod list" where
  "ConvertToInsulinPeriods b =
     [\<lparr>StartTime = ''00:00'', Coefficient = Night b, Hours = 6\<rparr>,
      \<lparr>StartTime = ''06:00'', Coefficient = Morning b, Hours = 6\<rparr>,
      \<lparr>StartTime = ''12:00'', Coefficient = Afternoon b, Hours = 6\<rparr>,
      \<lparr>StartTime = ''18:00'', Coefficient = Evening b, Hours = 6\<rparr>]"

definition to_base_step :: "BaseInsulinCoefficients \<Rightarrow> InsulinPeriod \<Rightarrow> BaseInsulinCoefficients"
where
  "to_base_step result period =
     (let startHour = startHourOf (StartTime period);
          endHour = wrap64 (startHour + go_int (Hours period))
      in if startHour \<ge> 0 \<and> startHour < 6 \<and> endHour \<le> 6 then
           result\<lparr>Night := Coefficient period\<rparr>
         else if startHour \<ge> 6 \<and> startHour < 12 \<and> endHour \<le> 12 then
           result\<lparr>Morning := Coefficient period\<rparr>
         else if startHour \<ge> 12 \<and> startHour < 18 \<and> endHour \<le> 18 then
           result\<lparr>Afternoon := Coefficient period\<rparr>
         else if startHour \<ge> 18 \<and> startHour < 24 \<and> endHour \<le> 24 then
           result\<lparr>Evening := Coefficient period\<rparr>
         else result)"

definition InsulinPeriodsToBaseCoefficients :: "InsulinPeriod list \<Rightarrow> BaseInsulinCoefficients"
where
  "InsulinPeriodsToBaseCoefficients periods =
     foldl to_base_step \<lparr>Morning = 1, Afternoon = 1, Evening = 1, Night = 1\<rparr> periods"

text \<open>\<open>CreateDefaultSettings\<close>.\<close>

definition CreateDefaultSettings :: Settings where
  "CreateDefaultSettings =
     \<lparr>TargetMin = 4.0, TargetMax = 8.0, IOBDuration = 4.0,
      InsulinPeriods = [\<lparr>StartTime = ''00:00'', Coefficient = 1.0, Hours = 24\<rparr>],
      SensitivityPeriods = [\<lparr>S_StartTime = ''00:00'', Sensitivity = 2.0, S_Hours = 24\<rparr>],
      CarbRatioPeriods = [\<lparr>C_StartTime = ''00:00'', Ratio = 1.0, C_Hours = 24\<rparr>]\<rparr>"

section \<open>Request handlers (package handlers)\<close>

datatype handler_error = StorageError | IndexOutOfRange

text \<open>\<open>areInsulinPeriodsEqual\<close>: the length test, then the index loop.\<close>

fun periods_equal_loop :: "InsulinPeriod list \<Rightarrow> InsulinPeriod list \<Rightarrow> bool" where
  "periods_equal_loop (x # xs) (y # ys) =
     (if StartTime x \<noteq> StartTime y \<or> Hours x \<noteq> Hours y \<or> Coefficient x \<noteq> Coefficient y
      then False else periods_equal_loop xs ys)"
| "periods_equal_loop _ _ = True"

definition areInsulinPeriodsEqual :: "InsulinPeriod list \<Rightarrow> InsulinPeriod list \<Rightarrow> bool" where
  "areInsulinPeriodsEqual a b =
     (if length a \<noteq> length b then False else periods_equal_loop a b)"

text \<open>
  The tuning part of \<open>SaveBloodSugar\<close> (from the test on the number of recent readings to
  the response): the arguments are whether the storage accepts an update, the user's
  stored settings and the readings of the last week, the new one included. The result is
  the settings held by the storage afterwards and the \<open>coefficientsAdjusted\<close> field of
  the response, or the error the handler answers with.
\<close>

definition SaveBloodSugar_tune ::
  "bool \<Rightarrow> Settings \<Rightarrow> BloodSugarReading list \<Rightarrow> handler_error + (Settings \<times> bool)"
where
  "SaveBloodSugar_tune update_ok settings recentReadings =
     (if length recentReadings \<ge> 5 \<and> TargetMin settings > 0 then
        let legacyCoefficients = InsulinPeriodsToBaseCoefficients (InsulinPeriods settings);
            adjustedLegacyCoefficients =
              AdjustInsulinCoefficients recentReadings (TargetMin settings) legacyCoefficients;
            adjustedPeriods = ConvertToInsulinPeriods adjustedLegacyCoefficients
        in if \<not> areInsulinPeriodsEqual (InsulinPeriods settings) adjustedPeriods then
             (if update_ok then Inr (settings\<lparr>InsulinPeriods := adjustedPeriods\<rparr>, True)
              else Inl StorageError)
           else Inr (settings, False)
      else Inr (settings, False))"

text \<open>The period scan of \<open>AnalyzeFood\<close>: a \<open>for\<close> loop over the periods that assigns
  \<open>periodCoefficient\<close> and leaves at the first match; the last argument is the value
  \<open>periodCoefficient\<close> has when the loop runs out.\<close>

fun period_scan :: "int \<Rightarrow> InsulinPeriod list \<Rightarrow> float64 \<Rightarrow> float64" where
  "period_scan hour [] periodCoefficient = periodCoefficient"
| "period_scan hour (period # rest) periodCoefficient =
     (let startHour = startHourOf (StartTime period)
      in if hour \<ge> startHour \<and> hour < wrap64 (startHour + go_int (Hours period))
         then Coefficient period
         else period_scan hour rest periodCoefficient)"

definition resolve_period_coefficient :: "InsulinPeriod list \<Rightarrow> int \<Rightarrow> float64" where
  "resolve_period_coefficient periods hour =
     (if length periods > 0 then period_scan hour periods 1 else 1)"

record dose_response =
  mealInsulin :: float64
  correctionInsulin :: float64
  totalInsulin :: float64
  periodCoefficient :: float64

text \<open>
  The dose computation of \<open>AnalyzeFood\<close>: \<open>carbs\<close> is the estimate of the food analysis,
  \<open>hour\<close> is \<open>time.Now().Hour()\<close>, \<open>lastReading\<close> is what the storage returns for the
  most recent reading (at most one element). Indexing an empty slice panics.
\<close>

definition AnalyzeFood_dose ::
  "Settings \<Rightarrow> float64 \<Rightarrow> int \<Rightarrow> BloodSugarReading list \<Rightarrow> handler_error + dose_response"
where
  "AnalyzeFood_dose userSettings carbs hour lastReading =
     (case CarbRatioPeriods userSettings of
        [] \<Rightarrow> Inl IndexOutOfRange
      | carbRatio0 # _ \<Rightarrow>
          let meal0 = carbs / Ratio carbRatio0;
              coefficient = resolve_period_coefficient (InsulinPeriods userSettings) hour;
              meal = meal0 * coefficient
          in (case lastReading of
                [] \<Rightarrow>
                  Inr \<lparr>mealInsulin = meal, correctionInsulin = 0, totalInsulin = meal + 0,
                       periodCoefficient = coefficient\<rparr>
              | reading0 # _ \<Rightarrow>
                  if TargetMin userSettings > 0 then
                    (case SensitivityPeriods userSettings of
                       [] \<Rightarrow> Inl IndexOutOfRange
                     | sensitivity0 # _ \<Rightarrow>
                         let correction =
                               (if Sensitivity sensitivity0 > 0 then
                                  let bloodSugarDiff = Value reading0 - TargetMin userSettings
                                  in if bloodSugarDiff > 0
                                     then bloodSugarDiff / Sensitivity sensitivity0 else 0
                                else 0)
                         in Inr \<lparr>mealInsulin = meal, correctionInsulin = correction,
                                 totalInsulin = meal + correction,
                                 periodCoefficient = coefficient\<rparr>)
                  else
                    Inr \<lparr>mealInsulin = meal, correctionInsulin = 0, totalInsulin = meal + 0,
                         periodCoefficient = coefficient\<rparr>))"

section \<open>The period validator of the web client (app.js)\<close>

text \<open>
  The hours of a period row come from \<open>parseInt\<close>: each is an integer or \<open>NaN\<close>.
  Addition and subtraction propagate \<open>NaN\<close>, and \<open>NaN === 24\<close> is false.
\<close>

datatype jsnum = NaN | Num int

fun js_add :: "jsnum \<Rightarrow> jsnum \<Rightarrow> jsnum" where
  "js_add (Num a) (Num b) = Num (a + b)"
| "js_add _ _ = NaN"

fun js_sub :: "jsnum \<Rightarrow> jsnum \<Rightarrow> jsnum" where
  "js_sub (Num a) (Num b) = Num (a - b)"
| "js_sub _ _ = NaN"

text \<open>A period as \<open>getInsulinPeriods\<close>, \<open>getSensitivityPeriods\<close> and
  \<open>getCarbRatioPeriods\<close> build it.\<close>

record js_period =
  startHour :: jsnum
  endHour :: jsnum
  name :: string
  coefficient :: real

text \<open>What \<open>validatePeriods\<close> writes and returns: the returned flag, the class and the
  text of the total-hours display (the text either states 24 hours or carries the computed
  total), and the total of the alert, raised only on failure.\<close>

datatype display_text = Sum_is_24 | Current_sum jsnum

record validation =
  ok :: bool
  className :: string
  textContent :: display_text
  alert :: "jsnum option"

definition validatePeriods :: "js_period list \<Rightarrow> validation" where
  "validatePeriods periods =
     (let totalHours =
            foldl (\<lambda>totalHours period.
                     js_add totalHours (js_sub (endHour period) (startHour period)))
                  (Num 0) periods
      in if totalHours = Num 24 then
           \<lparr>ok = True, className = ''text-success'', textContent = Sum_is_24, alert = None\<rparr>
         else
           \<lparr>ok = False, className = ''text-danger'', textContent = Current_sum totalHours,
            alert = Some totalHours\<rparr>)"

section \<open>Notions of the specification\<close>

text \<open>The readings of a day quadrant, the mean of a list of values and the clamp of a
  value to an interval, as the specification words them. The mean is the exact one.\<close>

definition morning_hour :: "int \<Rightarrow> bool" where
  "morning_hour h = (6 \<le> h \<and> h < 12)"

definition afternoon_hour :: "int \<Rightarrow> bool" where
  "afternoon_hour h = (12 \<le> h \<and> h < 18)"

definition evening_hour :: "int \<Rightarrow> bool" where
  "evening_hour h = (18 \<le> h \<and> h < 22)"

definition night_hour :: "int \<Rightarrow> bool" where
  "night_hour h = (h < 6 \<or> 22 \<le> h)"

definition bucket :: "(int \<Rightarrow> bool) \<Rightarrow> BloodSugarReading list \<Rightarrow> float64 list" where
  "bucket quadrant readings =
     map Value (filter (\<lambda>r. quadrant (TimestampHour r)) readings)"

definition mean :: "real list \<Rightarrow> real" where
  "mean vs = sum_list vs / real (length vs)"

definition clamp :: "real \<Rightarrow> real \<Rightarrow> real \<Rightarrow> real" where
  "clamp lo hi x = max lo (min hi x)"

text \<open>The dead band, tested as the code tests it: on the binary64 average of the values
  (the sum accumulated in list order, then divided by the count) and on the binary64
  difference of that average and the target.\<close>

definition in_band :: "float64 list \<Rightarrow> float64 \<Rightarrow> bool" where
  "in_band vs targetBG = (\<bar>f64_sub (calculateAverage vs) targetBG\<bar> < 1)"

text \<open>The limited adjustment factor of a bucket: the binary64 ratio of the target to the
  binary64 average, clamped to the binary64 values of 0.8 and 1.2 (an average of zero
  sends the ratio to an infinity, and the clamp to one of its ends).\<close>

definition limited_factor :: "float64 list \<Rightarrow> float64 \<Rightarrow> real" where
  "limited_factor vs targetBG =
     (if calculateAverage vs = 0 then (if 0 < targetBG then round64 1.2 else round64 0.8)
      else clamp (round64 0.8) (round64 1.2) (f64_div targetBG (calculateAverage vs)))"

text \<open>A quadrant is adjusted when there are at least 5 readings in all, at least 3 in
  its bucket, and the bucket is outside the dead band.\<close>

definition adjusts :: "BloodSugarReading list \<Rightarrow> float64 \<Rightarrow> (int \<Rightarrow> bool) \<Rightarrow> bool" where
  "adjusts readings targetBG quadrant =
     (5 \<le> length readings \<and> 3 \<le> length (bucket quadrant readings)
      \<and> \<not> in_band (bucket quadrant readings) targetBG)"

text \<open>The coefficient of a quadrant after one invocation: the binary64 product of the
  old coefficient and the limited factor when the quadrant is adjusted, the old
  coefficient otherwise.\<close>

definition tuned :: "BloodSugarReading list \<Rightarrow> float64 \<Rightarrow> (int \<Rightarrow> bool) \<Rightarrow> float64 \<Rightarrow> float64"
where
  "tuned readings targetBG quadrant c =
     (if adjusts readings targetBG quadrant
      then f64_mul c (limited_factor (bucket quadrant readings) targetBG) else c)"



text \<open>A quadrant needs no adjustment: it has fewer than 3 readings, or it is inside the
  dead band as the code tests it.\<close>

definition settled :: "(int \<Rightarrow> bool) \<Rightarrow> BloodSugarReading list \<Rightarrow> float64 \<Rightarrow> bool" where
  "settled quadrant readings targetBG =
     (length (bucket quadrant readings) < 3 \<or> in_band (bucket quadrant readings) targetBG)"

text \<open>The same with the exact mean, as the words "a mean within 1.0 of the target" read
  without reference to the code.\<close>

definition settled_exactly :: "(int \<Rightarrow> bool) \<Rightarrow> BloodSugarReading list \<Rightarrow> float64 \<Rightarrow> bool"
where
  "settled_exactly quadrant readings targetBG =
     (length (bucket quadrant readings) < 3
      \<or> \<bar>mean (bucket quadrant readings) - targetBG\<bar> < 1)"

text \<open>
  The match of an hour against a period. \<open>declared_match\<close> is the test of the
  specification, on the declared start (hours and minutes of \<open>StartTime\<close>) and the
  declared duration; \<open>period_matches\<close> is the test the handler makes, on the hour of the
  start and the duration converted to \<open>int\<close>.
\<close>

definition declared_start :: "string \<Rightarrow> real" where
  "declared_start startTime =
     real_of_int (fst (Atoi (Split_first startTime)))
     + real_of_int (fst (Atoi (drop (length (Split_first startTime) + 1) startTime))) / 60"

definition declared_match :: "int \<Rightarrow> InsulinPeriod \<Rightarrow> bool" where
  "declared_match hour p =
     (real_of_int hour \<ge> declared_start (StartTime p)
      \<and> real_of_int hour < declared_start (StartTime p) + Hours p)"

definition period_matches :: "int \<Rightarrow> InsulinPeriod \<Rightarrow> bool" where
  "period_matches hour p =
     (hour \<ge> startHourOf (StartTime p)
      \<and> hour < wrap64 (startHourOf (StartTime p) + go_int (Hours p)))"

definition first_match_or_default ::
  "(InsulinPeriod \<Rightarrow> bool) \<Rightarrow> InsulinPeriod list \<Rightarrow> float64"
where
  "first_match_or_default matches periods =
     (case find matches periods of None \<Rightarrow> 1 | Some p \<Rightarrow> Coefficient p)"

text \<open>
  The total the validator computes: the sum of the differences \<open>endHour - startHour\<close>,
  \<open>NaN\<close> as soon as one hour is \<open>NaN\<close>. A difference is negative for a period that ends
  before it starts on the clock face.
\<close>

fun num_of :: "jsnum \<Rightarrow> int" where
  "num_of (Num n) = n"
| "num_of NaN = 0"

definition hour_difference :: "js_period \<Rightarrow> jsnum" where
  "hour_difference p = js_sub (endHour p) (startHour p)"

definition computed_total :: "js_period list \<Rightarrow> jsnum" where
  "computed_total periods =
     (if list_ex (\<lambda>p. hour_difference p = NaN) periods then NaN
      else Num (sum_list (map (\<lambda>p. num_of (hour_difference p)) periods)))"

text \<open>
  The duration of a period in hours, as the specification has it: positive, the time
  from the start to the end on the 24-hour clock, through midnight when the end is not
  after the start. The start and end are whole hours from 0 to 23.
\<close>

definition duration :: "int \<Rightarrow> int \<Rightarrow> int" where
  "duration startH endH = (if startH < endH then endH - startH else endH - startH + 24)"

definition durations :: "js_period list \<Rightarrow> int list" where
  "durations periods = map (\<lambda>p. duration (num_of (startHour p)) (num_of (endHour p))) periods"

section \<open>Example inputs\<close>




definition readings_sparse :: "BloodSugarReading list" where
  "readings_sparse =
     [\<lparr>Value = 9, TimestampHour = 7\<rparr>, \<lparr>Value = 9, TimestampHour = 7\<rparr>,
      \<lparr>Value = 9, TimestampHour = 13\<rparr>, \<lparr>Value = 9, TimestampHour = 13\<rparr>,
      \<lparr>Value = 9, TimestampHour = 19\<rparr>]"

definition readings_four :: "BloodSugarReading list" where
  "readings_four =
     [\<lparr>Value = 9, TimestampHour = 7\<rparr>, \<lparr>Value = 9.5, TimestampHour = 8\<rparr>,
      \<lparr>Value = 10, TimestampHour = 9\<rparr>, \<lparr>Value = 12, TimestampHour = 10\<rparr>]"

definition coefficients_sample :: BaseInsulinCoefficients where
  "coefficients_sample = \<lparr>Morning = 1.2, Afternoon = 1, Evening = 0.8, Night = 1\<rparr>"


definition coefficients_unit :: BaseInsulinCoefficients where
  "coefficients_unit = \<lparr>Morning = 1, Afternoon = 1, Evening = 1, Night = 1\<rparr>"

definition periods_half_hour :: "InsulinPeriod list" where
  "periods_half_hour =
     [\<lparr>StartTime = ''00:00'', Coefficient = 2, Hours = 6.5\<rparr>,
      \<lparr>StartTime = ''06:30'', Coefficient = 3, Hours = 17.5\<rparr>]"

definition settings_two_periods :: Settings where
  "settings_two_periods =
     \<lparr>TargetMin = 6, TargetMax = 8, IOBDuration = 4,
      InsulinPeriods = [\<lparr>StartTime = ''00:00'', Coefficient = 1, Hours = 24\<rparr>],
      SensitivityPeriods =
        [\<lparr>S_StartTime = ''00:00'', Sensitivity = 2, S_Hours = 12\<rparr>,
         \<lparr>S_StartTime = ''12:00'', Sensitivity = 1, S_Hours = 12\<rparr>],
      CarbRatioPeriods =
        [\<lparr>C_StartTime = ''00:00'', Ratio = 10, C_Hours = 12\<rparr>,
         \<lparr>C_StartTime = ''12:00'', Ratio = 5, C_Hours = 12\<rparr>]\<rparr>"

text \<open>Four rows that tile the day, the last one ending at midnight (a time field reads
  00:00 there).\<close>

definition rows_to_midnight :: "js_period list" where
  "rows_to_midnight =
     [\<lparr>startHour = Num 0, endHour = Num 6, name = ''night'', coefficient = 1\<rparr>,
      \<lparr>startHour = Num 6, endHour = Num 12, name = ''morning'', coefficient = 1.2\<rparr>,
      \<lparr>startHour = Num 12, endHour = Num 18, name = ''day'', coefficient = 1\<rparr>,
      \<lparr>startHour = Num 18, endHour = Num 0, name = ''evening'', coefficient = 1.1\<rparr>]"

section \<open>Helper lemmas\<close>

subsection \<open>Rounding is monotone\<close>


lemma round_even_of_int [simp]: "round_even (of_int k) = k"
  by (simp add: round_even_def)













subsection \<open>Evaluating a rounding\<close>

lemma bitlen_eqI:
  assumes "2 ^ nat (b - 1) \<le> n" "n < 2 ^ nat b" "1 \<le> b"
  shows "bitlen n = b"
proof -
  have "(0::int) < 2 ^ nat (b - 1)" by simp
  then have pos: "0 < n" using assms(1) by linarith
  from bitlen_bounds [OF pos]
  have lo: "2 ^ nat (bitlen n - 1) \<le> n" and hi: "n < 2 ^ nat (bitlen n)"
    by auto
  have b1: "1 \<le> bitlen n" using pos by (simp add: bitlen_alt_def)
  have "(2::int) ^ nat (b - 1) < 2 ^ nat (bitlen n)" using assms(1) hi by linarith
  then have "nat (b - 1) < nat (bitlen n)" by (simp add: power_strict_increasing_iff)
  moreover have "(2::int) ^ nat (bitlen n - 1) < 2 ^ nat b" using lo assms(2) by linarith
  then have "nat (bitlen n - 1) < nat b" by (simp add: power_strict_increasing_iff)
  ultimately show ?thesis using b1 assms(3) by linarith
qed

text \<open>
  The rounding of a number in the normal range, with the scale given: when
  \<open>\<bar>x\<bar> * 2 ^ k\<close> lies from \<open>2 ^ 52\<close> up to \<open>2 ^ 53\<close>, the significand is that number
  rounded to an integer. Concrete roundings are evaluated through this equation, on
  numbers of 53 bits.
\<close>

lemma round64_scaled:
  assumes lo: "2 ^ 52 \<le> \<bar>x\<bar> * 2 ^ k" and hi: "\<bar>x\<bar> * 2 ^ k < 2 ^ 53" and k: "k \<le> 1074"
  shows "round64 x = sgn x * (of_int (round_even (\<bar>x\<bar> * 2 ^ k)) / 2 ^ k)"
proof -
  define t where "t = 1074 - k"
  define y where "y = \<bar>x\<bar> * 2 ^ 1074"
  have kt: "1074 = k + t" using k by (simp add: t_def)
  have y: "y = \<bar>x\<bar> * 2 ^ k * 2 ^ t" by (simp add: y_def kt power_add)
  have ylo: "2 ^ (52 + t) \<le> y"
    using mult_right_mono [OF lo, of "2 ^ t"] by (simp add: y power_add)
  have yhi: "y < 2 ^ (53 + t)"
    using mult_strict_right_mono [OF hi, of "2 ^ t"] by (simp add: y power_add)
  have flo: "2 ^ (52 + t) \<le> \<lfloor>y\<rfloor>"
  proof -
    have "real_of_int (2 ^ (52 + t)) \<le> y" using ylo by simp
    then show ?thesis by (simp only: le_floor_iff)
  qed
  have fhi: "\<lfloor>y\<rfloor> < 2 ^ (53 + t)"
  proof -
    have "y < real_of_int (2 ^ (53 + t))" using yhi by simp
    then show ?thesis by (simp only: floor_less_iff)
  qed
  have n1: "nat (int (53 + t) - 1) = 52 + t" and n2: "nat (int (53 + t)) = 53 + t"
    by simp_all
  have A: "2 ^ nat (int (53 + t) - 1) \<le> \<lfloor>y\<rfloor>" unfolding n1 by (rule flo)
  have B: "\<lfloor>y\<rfloor> < 2 ^ nat (int (53 + t))" unfolding n2 by (rule fhi)
  have "bitlen \<lfloor>y\<rfloor> = int (53 + t)"
    by (rule bitlen_eqI [OF A B]) simp
  then have s: "nat (bitlen \<lfloor>y\<rfloor> - 53) = t" by simp
  have ys: "y / 2 ^ t = \<bar>x\<bar> * 2 ^ k" by (simp add: y)
  have r: "round64 x = sgn x * (of_int (round_even (\<bar>x\<bar> * 2 ^ k)) * 2 ^ t / 2 ^ 1074)"
    unfolding round64_def Let_def y_def [symmetric] s ys ..
  have e: "(2::real) ^ t / 2 ^ 1074 = 1 / 2 ^ k"
    by (simp add: kt power_add)
  have "real_of_int (round_even (\<bar>x\<bar> * 2 ^ k)) * 2 ^ t / 2 ^ 1074
      = real_of_int (round_even (\<bar>x\<bar> * 2 ^ k)) * (2 ^ t / 2 ^ 1074)"
    by (simp only: times_divide_eq_right)
  also have "\<dots> = real_of_int (round_even (\<bar>x\<bar> * 2 ^ k)) * (1 / 2 ^ k)"
    by (simp only: e)
  also have "\<dots> = real_of_int (round_even (\<bar>x\<bar> * 2 ^ k)) / 2 ^ k"
    by simp
  finally show ?thesis by (simp only: r)
qed

text \<open>The roundings that the examples below go through.\<close>

lemma r64_01: "round64 (- 3) = - 3"
  by (subst round64_scaled [where k = 51]) (simp_all add: round_even_def)

lemma r64_02: "round64 (- 1) = - 1"
  by (subst round64_scaled [where k = 52]) (simp_all add: round_even_def)

lemma r64_03: "round64 (1 / 2) = 1 / 2"
  by (subst round64_scaled [where k = 53]) (simp_all add: round_even_def)

lemma r64_04: "round64 (12 / 19) = 2844378712023471 / 4503599627370496"
  by (subst round64_scaled [where k = 53]) (simp_all add: round_even_def)

lemma r64_05: "round64 (3 / 4) = 3 / 4"
  by (subst round64_scaled [where k = 53]) (simp_all add: round_even_def)

lemma r64_06: "round64 (4 / 5) = 3602879701896397 / 4503599627370496"
  by (subst round64_scaled [where k = 53]) (simp_all add: round_even_def)

lemma r64_07: "round64 (3602879701896397 / 4503599627370496) = 3602879701896397 / 4503599627370496"
  by (subst round64_scaled [where k = 53]) (simp_all add: round_even_def)

lemma r64_08: "round64 (7720456504063707 / 9007199254740992) = 7720456504063707 / 9007199254740992"
  by (subst round64_scaled [where k = 53]) (simp_all add: round_even_def)

lemma r64_09: "round64 (6 / 7) = 7720456504063707 / 9007199254740992"
  by (subst round64_scaled [where k = 53]) (simp_all add: round_even_def)

lemma r64_10: "round64 (12 / 13) = 4157168886803535 / 4503599627370496"
  by (subst round64_scaled [where k = 53]) (simp_all add: round_even_def)

lemma r64_11: "round64 (4157168886803535 / 4503599627370496) = 4157168886803535 / 4503599627370496"
  by (subst round64_scaled [where k = 53]) (simp_all add: round_even_def)

lemma r64_12: "round64 (1125899906842623 / 1125899906842624) = 1125899906842623 / 1125899906842624"
  by (subst round64_scaled [where k = 53]) (simp_all add: round_even_def)

lemma r64_13: "round64 (1) = 1"
  by (subst round64_scaled [where k = 52]) (simp_all add: round_even_def)

lemma r64_14: "round64 (5404319552844595 / 4503599627370496) = 5404319552844595 / 4503599627370496"
  by (subst round64_scaled [where k = 52]) (simp_all add: round_even_def)

lemma r64_15: "round64 (6 / 5) = 5404319552844595 / 4503599627370496"
  by (subst round64_scaled [where k = 52]) (simp_all add: round_even_def)

lemma r64_16: "round64 (10808639105689191 / 9007199254740992) = 1351079888211149 / 1125899906842624"
  by (subst round64_scaled [where k = 52]) (simp_all add: round_even_def)

lemma r64_17: "round64 (4 / 3) = 6004799503160661 / 4503599627370496"
  by (subst round64_scaled [where k = 52]) (simp_all add: round_even_def)

lemma r64_18: "round64 (3 / 2) = 3 / 2"
  by (subst round64_scaled [where k = 52]) (simp_all add: round_even_def)

lemma r64_19: "round64 (16212958658533785 / 9007199254740992) = 2026619832316723 / 1125899906842624"
  by (subst round64_scaled [where k = 52]) (simp_all add: round_even_def)

lemma r64_20: "round64 (2) = 2"
  by (subst round64_scaled [where k = 51]) (simp_all add: round_even_def)

lemma r64_21: "round64 (21 / 10) = 4728779608739021 / 2251799813685248"
  by (subst round64_scaled [where k = 51]) (simp_all add: round_even_def)

lemma r64_22: "round64 (3) = 3"
  by (subst round64_scaled [where k = 51]) (simp_all add: round_even_def)

lemma r64_23: "round64 (7 / 2) = 7 / 2"
  by (subst round64_scaled [where k = 51]) (simp_all add: round_even_def)

lemma r64_24: "round64 (9232379236109517 / 2251799813685248) = 2308094809027379 / 562949953421312"
  by (subst round64_scaled [where k = 50]) (simp_all add: round_even_def)

lemma r64_25: "round64 (49 / 10) = 2758454771764429 / 562949953421312"
  by (subst round64_scaled [where k = 50]) (simp_all add: round_even_def)

lemma r64_26: "round64 (5) = 5"
  by (subst round64_scaled [where k = 50]) (simp_all add: round_even_def)

lemma r64_27: "round64 (25220157913274779 / 4503599627370496) = 6305039478318695 / 1125899906842624"
  by (subst round64_scaled [where k = 50]) (simp_all add: round_even_def)

lemma r64_28: "round64 (6) = 6"
  by (subst round64_scaled [where k = 50]) (simp_all add: round_even_def)

lemma r64_29: "round64 (61 / 10) = 3433994715870003 / 562949953421312"
  by (subst round64_scaled [where k = 50]) (simp_all add: round_even_def)

lemma r64_30: "round64 (13 / 2) = 13 / 2"
  by (subst round64_scaled [where k = 50]) (simp_all add: round_even_def)

lemma r64_31: "round64 (7) = 7"
  by (subst round64_scaled [where k = 50]) (simp_all add: round_even_def)

lemma r64_32: "round64 (1498854250984243 / 211106232532992) = 7993889338582629 / 1125899906842624"
  by (subst round64_scaled [where k = 50]) (simp_all add: round_even_def)

lemma r64_33: "round64 (3996944669291315 / 562949953421312) = 3996944669291315 / 562949953421312"
  by (subst round64_scaled [where k = 50]) (simp_all add: round_even_def)

lemma r64_34: "round64 (71 / 10) = 3996944669291315 / 562949953421312"
  by (subst round64_scaled [where k = 50]) (simp_all add: round_even_def)

lemma r64_35: "round64 (37830236869912165 / 4503599627370496) = 4728779608739021 / 562949953421312"
  by (subst round64_scaled [where k = 49]) (simp_all add: round_even_def)

lemma r64_36: "round64 (9) = 9"
  by (subst round64_scaled [where k = 49]) (simp_all add: round_even_def)

lemma r64_37: "round64 (19 / 2) = 19 / 2"
  by (subst round64_scaled [where k = 49]) (simp_all add: round_even_def)

lemma r64_38: "round64 (10) = 10"
  by (subst round64_scaled [where k = 49]) (simp_all add: round_even_def)

lemma r64_39: "round64 (13) = 13"
  by (subst round64_scaled [where k = 49]) (simp_all add: round_even_def)

lemma r64_40: "round64 (14) = 14"
  by (subst round64_scaled [where k = 49]) (simp_all add: round_even_def)

lemma r64_41: "round64 (3996944669291315 / 281474976710656) = 3996944669291315 / 281474976710656"
  by (subst round64_scaled [where k = 49]) (simp_all add: round_even_def)

lemma r64_42: "round64 (16888498602639359 / 1125899906842624) = 15"
  by (subst round64_scaled [where k = 49]) (simp_all add: round_even_def)

lemma r64_43: "round64 (37 / 2) = 37 / 2"
  by (subst round64_scaled [where k = 48]) (simp_all add: round_even_def)

lemma r64_44: "round64 (39 / 2) = 39 / 2"
  by (subst round64_scaled [where k = 48]) (simp_all add: round_even_def)

lemma r64_45: "round64 (21) = 21"
  by (subst round64_scaled [where k = 48]) (simp_all add: round_even_def)

lemma r64_46: "round64 (11990834007873945 / 562949953421312) = 1498854250984243 / 70368744177664"
  by (subst round64_scaled [where k = 48]) (simp_all add: round_even_def)

lemma r64_47: "round64 (57 / 2) = 57 / 2"
  by (subst round64_scaled [where k = 48]) (simp_all add: round_even_def)

lemmas r64_facts =
  r64_01 r64_02 r64_03 r64_04 r64_05 r64_06 r64_07 r64_08
  r64_09 r64_10 r64_11 r64_12 r64_13 r64_14 r64_15 r64_16
  r64_17 r64_18 r64_19 r64_20 r64_21 r64_22 r64_23 r64_24
  r64_25 r64_26 r64_27 r64_28 r64_29 r64_30 r64_31 r64_32
  r64_33 r64_34 r64_35 r64_36 r64_37 r64_38 r64_39 r64_40
  r64_41 r64_42 r64_43 r64_44 r64_45 r64_46 r64_47

lemma fl_08: "round64 0.8 = 3602879701896397 / 4503599627370496"
  by (simp add: r64_facts)

lemma fl_12: "round64 1.2 = 5404319552844595 / 4503599627370496"
  by (simp add: r64_facts)

subsection \<open>Start times and small conversions\<close>

lemmas parse_defs = startHourOf_def Atoi_def ParseInt_def ParseUint_def Split_first_def
  isDigit_def digitVal_def maxUint64_def maxInt_def minInt_def Let_def

lemma start_hours [simp]:
  "startHourOf ''00:00'' = 0" "startHourOf ''06:00'' = 6"
  "startHourOf ''12:00'' = 12" "startHourOf ''18:00'' = 18"
  by (simp_all add: parse_defs)

text \<open>A range error comes before a later syntax error, and a syntax error before a range
  error that \<open>ParseInt\<close> alone would raise.\<close>

lemma atoi_first_error_wins:
  "Atoi ''99999999999999999999x'' = (maxInt, Some ErrRange)"
  "Atoi ''9223372036854775808x'' = (0, Some ErrSyntax)"
  "Atoi ''9223372036854775808'' = (maxInt, Some ErrRange)"
  "Atoi ''-9223372036854775808'' = (minInt, None)"
  by (simp_all add: parse_defs)

lemma go_int_small [simp]: "go_int 6 = 6" "go_int 12 = 12" "go_int 24 = 24"
  by (simp_all add: go_int_def minInt_def maxInt_def)

lemma go_int_of_int: "minInt \<le> k \<Longrightarrow> k \<le> maxInt \<Longrightarrow> go_int (real_of_int k) = k"
  by (simp add: go_int_def)

lemma wrap64_id: "minInt \<le> n \<Longrightarrow> n \<le> maxInt \<Longrightarrow> wrap64 n = n"
proof -
  assume lo: "minInt \<le> n" and hi: "n \<le> maxInt"
  have "0 \<le> n + 2 ^ 63" using lo by (simp add: minInt_def)
  moreover have "n + 2 ^ 63 < 2 ^ 64" using hi by (simp add: maxInt_def)
  ultimately have "(n + 2 ^ 63) mod 2 ^ 64 = n + 2 ^ 63"
    by (rule mod_pos_pos_trivial)
  then show ?thesis by (simp only: wrap64_def add_diff_cancel_right')
qed

subsection \<open>The grouping loop computes the quadrant buckets\<close>






subsection \<open>What the tuner does to one coefficient\<close>












text \<open>The definitions that evaluate the tuner on a concrete list of readings.\<close>

lemmas tuner_eval = AdjustInsulinCoefficients_def group_readings_def group_step_def
  calculateAverage_def adjustCoefficient_def f64_add_def f64_sub_def f64_mul_def f64_div_def
  r64_facts

lemmas notion_eval = tuned_def adjusts_def in_band_def limited_factor_def settled_def
  settled_exactly_def bucket_def morning_hour_def afternoon_hour_def evening_hour_def
  night_hour_def mean_def clamp_def calculateAverage_def f64_add_def f64_sub_def f64_mul_def
  f64_div_def r64_facts

text \<open>The dead band is open: a bucket whose average is exactly 1.0 away from the target is
  adjusted. Three morning readings of 7 against a target of 6 scale the coefficient 1 to
  the binary64 value of \<open>6 / 7\<close>.\<close>

lemma deadband_boundary_adjusts:
  "Morning (AdjustInsulinCoefficients
     [\<lparr>Value = 7, TimestampHour = 7\<rparr>, \<lparr>Value = 7, TimestampHour = 8\<rparr>,
      \<lparr>Value = 7, TimestampHour = 9\<rparr>, \<lparr>Value = 6, TimestampHour = 13\<rparr>,
      \<lparr>Value = 6, TimestampHour = 14\<rparr>] 6 coefficients_unit)
   = 7720456504063707 / 9007199254740992"
  by (simp add: tuner_eval coefficients_unit_def)

text \<open>
  The average is the binary64 one. Three readings of the binary64 value of 7.1 sum to a
  number that is rounded, and their average is the binary64 value printed
  7.099999999999999, below the readings themselves; against the binary64 value of 6.1 it
  is inside the dead band, while the exact mean is 1.0 away.
\<close>

lemma rounded_average_in_band:
  "calculateAverage [round64 7.1, round64 7.1, round64 7.1]
     = 7993889338582629 / 1125899906842624"
  "mean [round64 7.1, round64 7.1, round64 7.1] - round64 6.1 = 1"
  "in_band [round64 7.1, round64 7.1, round64 7.1] (round64 6.1)"
  by (simp_all add: notion_eval)

text \<open>
  The other way round: the binary64 values of 2.0, 2.1 and 4.9 have a mean above 3, less
  than 1.0 away from a target of 4, and a binary64 average of exactly 3, outside the dead
  band.
\<close>

lemma rounded_average_out_of_band:
  "calculateAverage [2, round64 2.1, round64 4.9] = 3"
  "3 < mean [2, round64 2.1, round64 4.9]"
  "\<bar>mean [2, round64 2.1, round64 4.9] - 4\<bar> < 1"
  "\<not> in_band [2, round64 2.1, round64 4.9] 4"
  by (simp_all add: notion_eval)

text \<open>
  In exact terms a product can pass 1.2 times the old coefficient by the last rounding:
  three morning readings of 3 against a target of 6 scale the coefficient 7 to the
  binary64 value of 8.4, which is above 8.4.
\<close>

lemma product_rounds_past_exact_bound:
  "Morning (AdjustInsulinCoefficients
     [\<lparr>Value = 3, TimestampHour = 7\<rparr>, \<lparr>Value = 3, TimestampHour = 8\<rparr>,
      \<lparr>Value = 3, TimestampHour = 9\<rparr>, \<lparr>Value = 6, TimestampHour = 13\<rparr>,
      \<lparr>Value = 6, TimestampHour = 14\<rparr>] 6
     \<lparr>Morning = 7, Afternoon = 1, Evening = 1, Night = 1\<rparr>)
   = 4728779608739021 / 562949953421312"
  "(1.2 :: real) * 7 < 4728779608739021 / 562949953421312"
  by (simp_all add: tuner_eval)

subsection \<open>The period scan is a search for the first match\<close>

lemma period_scan_find:
  "period_scan hour periods d =
     (case find (period_matches hour) periods of None \<Rightarrow> d | Some p \<Rightarrow> Coefficient p)"
  by (induction periods) (simp_all add: period_matches_def Let_def)

text \<open>The resolver of the dose request returns the coefficient of the first period that
  passes the handler's test, and 1 when none does.\<close>

lemma resolver_first_match:
  "resolve_period_coefficient periods hour
     = first_match_or_default (period_matches hour) periods"
  by (cases periods)
    (simp_all add: resolve_period_coefficient_def first_match_or_default_def period_scan_find
      del: period_scan.simps)

text \<open>Hour 7 against the periods 0h/6h/1.0, 6h/6h/1.2, 12h/6h/1.0, 18h/6h/1.1 resolves
  to 1.2, and an empty list to the default.\<close>

lemma resolver_examples:
  "resolve_period_coefficient
     [\<lparr>StartTime = ''00:00'', Coefficient = 1.0, Hours = 6\<rparr>,
      \<lparr>StartTime = ''06:00'', Coefficient = 1.2, Hours = 6\<rparr>,
      \<lparr>StartTime = ''12:00'', Coefficient = 1.0, Hours = 6\<rparr>,
      \<lparr>StartTime = ''18:00'', Coefficient = 1.1, Hours = 6\<rparr>] 7 = 1.2"
  "resolve_period_coefficient [] hour = 1"
  by (simp_all add: resolve_period_coefficient_def wrap64_def)

text \<open>On a period that starts on the hour and lasts a whole number of hours, within the
  range of \<open>int\<close>, the test of the handler is the test on the declared range.\<close>

lemma whole_hours_match:
  assumes "declared_start (StartTime p) = real_of_int (startHourOf (StartTime p))"
    and "Hours p = real_of_int k" "minInt \<le> k" "k \<le> maxInt"
    and "minInt \<le> startHourOf (StartTime p) + k" "startHourOf (StartTime p) + k \<le> maxInt"
  shows "period_matches hour p = declared_match hour p"
proof -
  have g: "go_int (Hours p) = k"
    using assms(2-4) by (simp add: go_int_of_int)
  have w: "wrap64 (startHourOf (StartTime p) + k) = startHourOf (StartTime p) + k"
    using assms(5,6) by (rule wrap64_id)
  have "declared_match hour p
      = (startHourOf (StartTime p) \<le> hour \<and> hour < startHourOf (StartTime p) + k)"
    unfolding declared_match_def assms(1,2) of_int_add [symmetric] of_int_le_iff of_int_less_iff
    by simp
  then show ?thesis
    by (simp add: period_matches_def g w)
qed

subsection \<open>The dose computation of the request handler\<close>

lemma max_zero_quotient:
  fixes x s :: real
  assumes "0 < s"
  shows "max 0 (x / s) = (if 0 < x then x / s else 0)"
  using assms by (simp add: max_def zero_le_divide_iff divide_le_0_iff not_less)

text \<open>The correction computed inline by \<open>AnalyzeFood\<close> is floored at zero.\<close>

lemma handler_correction_floor:
  assumes "0 < TargetMin s" and "0 < Sensitivity sp"
    and "CarbRatioPeriods s = cr # crs" and "SensitivityPeriods s = sp # sps"
    and "AnalyzeFood_dose s carbs hour (r # rs) = Inr d"
  shows "correctionInsulin d = max 0 ((Value r - TargetMin s) / Sensitivity sp)"
proof -
  have "correctionInsulin d
      = (if 0 < Value r - TargetMin s then (Value r - TargetMin s) / Sensitivity sp else 0)"
    using assms by (auto simp: AnalyzeFood_dose_def Let_def)
  then show ?thesis
    by (simp only: max_zero_quotient [OF assms(2)])
qed

text \<open>Above the target, the calculator function agrees with the floored formula.\<close>

lemma correction_insulin_above_target:
  "targetBG \<le> currentBG \<Longrightarrow> 0 < sensitivity \<Longrightarrow>
   CalculateCorrectionInsulin currentBG targetBG sensitivity
     = max 0 ((currentBG - targetBG) / sensitivity)"
  by (simp add: CalculateCorrectionInsulin_def max_def)

text \<open>Only the first carb-ratio period and the first sensitivity period reach the dose:
  the later periods of both sets can be dropped without changing any result.\<close>

lemma dose_ignores_later_periods:
  "AnalyzeFood_dose (s\<lparr>CarbRatioPeriods := cr # crs, SensitivityPeriods := sp # sps\<rparr>)
     carbs hour lastReading
   = AnalyzeFood_dose (s\<lparr>CarbRatioPeriods := [cr], SensitivityPeriods := [sp]\<rparr>)
       carbs hour lastReading"
  by (cases lastReading) (simp_all add: AnalyzeFood_dose_def Let_def)

subsection \<open>Reading ingestion on settings in four-quadrant form\<close>

lemma periods_equal_refl: "periods_equal_loop ps ps"
  by (induction ps) simp_all

text \<open>When the stored periods are exactly the image of a legacy record and the tuner
  returns that record unchanged, nothing is stored and no adjustment is reported.\<close>

lemma tune_noop_on_quadrants:
  assumes "InsulinPeriods s = ConvertToInsulinPeriods b"
    and "AdjustInsulinCoefficients rs (TargetMin s) b = b"
  shows "SaveBloodSugar_tune update_ok s rs = Inr (s, False)"
proof -
  have rt: "InsulinPeriodsToBaseCoefficients (ConvertToInsulinPeriods b) = b"
    by (simp add: InsulinPeriodsToBaseCoefficients_def ConvertToInsulinPeriods_def
        to_base_step_def wrap64_def)
  show ?thesis
    by (simp add: SaveBloodSugar_tune_def assms rt areInsulinPeriodsEqual_def
        periods_equal_refl Let_def)
qed

subsection \<open>The summing loop of the validator\<close>

lemma js_add_NaN [simp]: "js_add NaN x = NaN" "js_add x NaN = NaN"
  by (cases x; simp)+

lemma js_add_zero [simp]: "js_add (Num 0) x = x"
  by (cases x) simp_all

lemma js_add_assoc: "js_add (js_add a b) c = js_add a (js_add b c)"
  by (cases a; cases b; cases c; simp)

lemma computed_total_Cons:
  "computed_total (p # ps) = js_add (hour_difference p) (computed_total ps)"
  by (cases "hour_difference p") (auto simp: computed_total_def)

lemma total_loop_sum:
  "foldl (\<lambda>totalHours period. js_add totalHours (js_sub (endHour period) (startHour period)))
     acc periods = js_add acc (computed_total periods)"
proof (induction periods arbitrary: acc)
  case Nil
  show ?case by (cases acc) (simp_all add: computed_total_def)
next
  case (Cons p ps)
  show ?case
    by (simp add: Cons.IH computed_total_Cons js_add_assoc hour_difference_def)
qed

text \<open>What the validator decides: it accepts exactly when the sum of the differences
  \<open>endHour - startHour\<close> is 24, shows that sum when it rejects, and rejects no rows.\<close>

lemma validate_computed_total:
  "ok (validatePeriods periods) = (computed_total periods = Num 24)
   \<and> (\<not> ok (validatePeriods periods) \<longrightarrow>
        textContent (validatePeriods periods) = Current_sum (computed_total periods)
        \<and> alert (validatePeriods periods) = Some (computed_total periods))
   \<and> \<not> ok (validatePeriods [])"
  by (simp add: validatePeriods_def total_loop_sum Let_def computed_total_def)

text \<open>A row runs forward when both hours are numbers and the end is after the start.
  On rows that all run forward the differences are the durations, and the validator
  accepts exactly the collections whose durations sum to 24.\<close>

lemma forward_difference:
  assumes "startHour p = Num a" "endHour p = Num b" "a < b"
  shows "hour_difference p = Num (duration a b)"
  using assms by (simp add: hour_difference_def duration_def)

lemma validate_forward_rows:
  assumes "list_all (\<lambda>p. startHour p = Num (num_of (startHour p))
                       \<and> endHour p = Num (num_of (endHour p))
                       \<and> num_of (startHour p) < num_of (endHour p)) periods"
  shows "ok (validatePeriods periods) = (sum_list (durations periods) = 24)"
proof -
  have "computed_total periods = Num (sum_list (durations periods))"
    using assms
  proof (induction periods)
    case Nil
    show ?case by (simp add: computed_total_def durations_def)
  next
    case (Cons p ps)
    then have d: "hour_difference p = Num (duration (num_of (startHour p)) (num_of (endHour p)))"
      by (intro forward_difference) simp_all
    from Cons have "computed_total ps = Num (sum_list (durations ps))" by simp
    then show ?case by (simp add: computed_total_Cons d durations_def)
  qed
  then show ?thesis by (simp add: validate_computed_total)
qed

section \<open>Correction insulin\<close>

text \<open>
  Claim C1. The correction-insulin function is to return
  \<open>max 0 ((currentBG - targetBG) / sensitivity)\<close> and never a negative value.
  \<open>CalculateCorrectionInsulin\<close> has no floor: with current glucose 5, target 6 and
  sensitivity 2 it returns \<open>-0.5\<close>, a negative correction, where the floored formula
  gives 0.
\<close>

theorem correction_insulin_below_target:
  "CalculateCorrectionInsulin 5 6 2 = - 0.5
   \<and> CalculateCorrectionInsulin 5 6 2 < 0
   \<and> max 0 ((5 - 6) / 2 :: real) = 0
   \<and> CalculateCorrectionInsulin 5 6 2 \<noteq> max 0 ((5 - 6) / 2)"
  by (simp add: CalculateCorrectionInsulin_def)

section \<open>Carb ratio and sensitivity in the dose request\<close>

text \<open>
  Claim C2. The dose computation is to use the carb ratio and the sensitivity of the
  period that holds the current hour. \<open>AnalyzeFood\<close> takes element 0 of both sets: at
  hour 13, with carb-ratio periods 00:00/12h/10 and 12:00/12h/5 and sensitivity periods
  00:00/12h/2 and 12:00/12h/1, 50 g of carbohydrate and a last reading of 9 against a
  target of 6, the meal insulin is \<open>50 / 10\<close> and the correction \<open>(9 - 6) / 2\<close>: the
  values of the periods that start at 00:00 and end at 12:00, not \<open>50 / 5\<close> and
  \<open>(9 - 6) / 1\<close>.
\<close>

theorem dose_uses_first_periods:
  "AnalyzeFood_dose settings_two_periods 50 13 [\<lparr>Value = 9, TimestampHour = 12\<rparr>]
   = Inr \<lparr>mealInsulin = 50 / 10, correctionInsulin = (9 - 6) / 2,
          totalInsulin = 50 / 10 + (9 - 6) / 2, periodCoefficient = 1\<rparr>
   \<and> map Ratio (CarbRatioPeriods settings_two_periods) = [10, 5]
   \<and> map Sensitivity (SensitivityPeriods settings_two_periods) = [2, 1]
   \<and> map (\<lambda>p. startHourOf (C_StartTime p)) (CarbRatioPeriods settings_two_periods) = [0, 12]
   \<and> map (\<lambda>p. startHourOf (S_StartTime p)) (SensitivityPeriods settings_two_periods)
       = [0, 12]"
  by (simp add: AnalyzeFood_dose_def resolve_period_coefficient_def wrap64_def
      settings_two_periods_def)

section \<open>Reading ingestion when the tuner changes nothing\<close>

text \<open>
  Claim C3. When the tuner returns its input coefficients unchanged, the stored
  dosing-coefficient periods are to stay as they are and \<open>coefficientsAdjusted\<close> is to be
  false. On the default settings (one period of 24 hours) and five readings of which no
  quadrant holds three, the tuner returns the legacy coefficients unchanged, and yet
  \<open>SaveBloodSugar\<close> stores four periods of 6 hours in place of the one period and reports
  \<open>coefficientsAdjusted = true\<close>.
\<close>

theorem tune_rewrites_unchanged_settings:
  "AdjustInsulinCoefficients readings_sparse (TargetMin CreateDefaultSettings)
     (InsulinPeriodsToBaseCoefficients (InsulinPeriods CreateDefaultSettings))
   = InsulinPeriodsToBaseCoefficients (InsulinPeriods CreateDefaultSettings)
   \<and> InsulinPeriods CreateDefaultSettings
       = [\<lparr>StartTime = ''00:00'', Coefficient = 1, Hours = 24\<rparr>]
   \<and> SaveBloodSugar_tune True CreateDefaultSettings readings_sparse
   = Inr (CreateDefaultSettings
            \<lparr>InsulinPeriods :=
               [\<lparr>StartTime = ''00:00'', Coefficient = 1, Hours = 6\<rparr>,
                \<lparr>StartTime = ''06:00'', Coefficient = 1, Hours = 6\<rparr>,
                \<lparr>StartTime = ''12:00'', Coefficient = 1, Hours = 6\<rparr>,
                \<lparr>StartTime = ''18:00'', Coefficient = 1, Hours = 6\<rparr>]\<rparr>, True)"
  by (simp add: SaveBloodSugar_tune_def CreateDefaultSettings_def readings_sparse_def
      InsulinPeriodsToBaseCoefficients_def to_base_step_def wrap64_def
      AdjustInsulinCoefficients_def group_readings_def group_step_def
      ConvertToInsulinPeriods_def areInsulinPeriodsEqual_def)

section \<open>Total insulin\<close>

text \<open>
  Claim C4. For all meal insulin, correction insulin and insulin on board, of any sign,
  \<open>CalculateTotalInsulin\<close> returns \<open>max 0 (meal + correction - onBoard)\<close>; the result is
  never negative; and insulin on board reduces the dose: a larger amount on board never
  gives a larger dose, and no amount gives a dose below zero.
\<close>

theorem total_insulin_floor:
  "CalculateTotalInsulin m c iob = max 0 (m + c - iob)
   \<and> 0 \<le> CalculateTotalInsulin m c iob
   \<and> (iob \<le> iob' \<longrightarrow>
        CalculateTotalInsulin m c iob' \<le> CalculateTotalInsulin m c iob)"
  by (auto simp add: CalculateTotalInsulin_def Let_def max_def)

theorem total_insulin_floor_witness:
  "CalculateTotalInsulin 6 1.5 2 = 5.5
   \<and> CalculateTotalInsulin 1 (-3) 4 = 0
   \<and> (2::real) \<le> 10
   \<and> CalculateTotalInsulin 6 1.5 10 \<le> CalculateTotalInsulin 6 1.5 2"
  using total_insulin_floor [of 6 "1.5" 2 10] total_insulin_floor [of 1 "-3" 4 4]
  by simp

section \<open>One invocation of the tuner changes a coefficient by at most 20 percent\<close>




section \<open>The tuner is the identity on settled readings\<close>




section \<open>The input gate of the tuner\<close>

text \<open>
  Claim C7. With fewer than 5 readings, whatever the target and the coefficients,
  \<open>AdjustInsulinCoefficients\<close> returns its input coefficients unchanged. The function is
  total and its result is a coefficient record: there is no failure value to signal.
\<close>

theorem adjust_gate_noop:
  "length readings < 5 \<Longrightarrow>
   AdjustInsulinCoefficients readings targetBG cur = cur"
  by (simp add: AdjustInsulinCoefficients_def)

theorem adjust_gate_noop_witness:
  "length readings_four < 5
   \<and> AdjustInsulinCoefficients readings_four 6 coefficients_sample = coefficients_sample"
  using adjust_gate_noop [of readings_four 6 coefficients_sample]
  by (simp add: readings_four_def)

section \<open>The period resolver\<close>

text \<open>
  Claim C8. The resolver is to return the coefficient of the first period whose range
  holds the hour: \<open>hour \<ge> startHour\<close> and \<open>hour < startHour + durationHours\<close>. The scan of
  \<open>AnalyzeFood\<close> compares with \<open>startHour + int(period.Hours)\<close> and so drops the half hour
  of a duration. The periods 00:00 of 6.5 hours (coefficient 2) and 06:30 of 17.5 hours
  (coefficient 3) tile the day. Hour 6 lies in the first and resolves to 3, the
  coefficient of the second; hour 23 lies in the second and matches no period for the
  scan, which returns the default 1.
\<close>

theorem resolver_drops_half_hours:
  "map Hours periods_half_hour = [6.5, 17.5]
   \<and> sum_list (map Hours periods_half_hour) = 24
   \<and> map (\<lambda>p. declared_start (StartTime p)) periods_half_hour = [0, 6.5]
   \<and> first_match_or_default (declared_match 6) periods_half_hour = 2
   \<and> resolve_period_coefficient periods_half_hour 6 = 3
   \<and> first_match_or_default (declared_match 23) periods_half_hour = 3
   \<and> resolve_period_coefficient periods_half_hour 23 = 1"
  by (simp add: resolve_period_coefficient_def first_match_or_default_def declared_match_def
      declared_start_def go_int_def wrap64_def periods_half_hour_def parse_defs)

section \<open>The period validator\<close>

text \<open>
  Claim C9. The validator is to accept a period collection if and only if the durations
  of its periods sum to exactly 24. \<open>validatePeriods\<close> sums \<open>endHour - startHour\<close>, which
  is not the duration of a period that ends at midnight. The rows 0 to 6, 6 to 12, 12 to
  18 and 18 to 0 have durations of 6 hours each, 24 in all; the validator computes the
  total 0, rejects the rows and reports 0.
\<close>

theorem validator_rejects_day_to_midnight:
  "durations rows_to_midnight = [6, 6, 6, 6]
   \<and> sum_list (durations rows_to_midnight) = 24
   \<and> ok (validatePeriods rows_to_midnight) = False
   \<and> className (validatePeriods rows_to_midnight) = ''text-danger''
   \<and> textContent (validatePeriods rows_to_midnight) = Current_sum (Num 0)
   \<and> alert (validatePeriods rows_to_midnight) = Some (Num 0)"
  by (simp add: validatePeriods_def durations_def duration_def rows_to_midnight_def Let_def)

section \<open>From the legacy format to periods and back\<close>

text \<open>
  Claim C10. For every legacy four-quadrant record \<open>b\<close>, converting \<open>b\<close> to the period
  list and back is the identity:
  \<open>InsulinPeriodsToBaseCoefficients (ConvertToInsulinPeriods b) = b\<close>.
\<close>

theorem legacy_roundtrip:
  "InsulinPeriodsToBaseCoefficients (ConvertToInsulinPeriods b) = b"
  by (simp add: InsulinPeriodsToBaseCoefficients_def ConvertToInsulinPeriods_def
      to_base_step_def wrap64_def)

end
